theory Spec2Isabelle
  imports Complex_Main "HOL-Library.Word"
begin

section \<open>Values of the program\<close>

subsection \<open>The type double\<close>

text \<open>
  The evaluators of \<^verbatim>\<open>m1.cpp\<close> compute in C++ \<^verbatim>\<open>double\<close>. A double is modelled
  as a finite value, one of the two infinities, or not-a-number. The special values
  follow IEEE 754: an operation on NaN gives NaN, infinity minus infinity, zero times infinity,
  zero by zero and infinity by infinity give NaN, and a nonzero finite value divided by zero
  gives an infinity. Finite values are idealised: they are real numbers, operations on
  them are exact (no rounding, no overflow to infinity), and there is one zero (the
  sign of a zero is not modelled, so a division by zero takes the sign of the dividend).
\<close>

datatype double = Fin real | PosInf | NegInf | NaN

instantiation double :: "{zero, one, plus, uminus, minus, times, inverse}"
begin

definition zero_double :: double where
  "zero_double = Fin 0"

definition one_double :: double where
  "one_double = Fin 1"

fun plus_double :: "double \<Rightarrow> double \<Rightarrow> double" where
  "plus_double NaN b = NaN"
| "plus_double a NaN = NaN"
| "plus_double PosInf NegInf = NaN"
| "plus_double NegInf PosInf = NaN"
| "plus_double PosInf b = PosInf"
| "plus_double NegInf b = NegInf"
| "plus_double (Fin x) PosInf = PosInf"
| "plus_double (Fin x) NegInf = NegInf"
| "plus_double (Fin x) (Fin y) = Fin (x + y)"

fun uminus_double :: "double \<Rightarrow> double" where
  "uminus_double (Fin x) = Fin (- x)"
| "uminus_double PosInf = NegInf"
| "uminus_double NegInf = PosInf"
| "uminus_double NaN = NaN"

definition minus_double :: "double \<Rightarrow> double \<Rightarrow> double" where
  "minus_double a b = (a::double) + (- b)"

text \<open>The infinity of the sign of a real number; a zero counts as positive.\<close>

definition signed_inf :: "real \<Rightarrow> double" where
  "signed_inf s = (if s < 0 then NegInf else PosInf)"

fun times_double :: "double \<Rightarrow> double \<Rightarrow> double" where
  "times_double NaN b = NaN"
| "times_double a NaN = NaN"
| "times_double (Fin x) (Fin y) = Fin (x * y)"
| "times_double (Fin x) PosInf = (if x = 0 then NaN else signed_inf x)"
| "times_double (Fin x) NegInf = (if x = 0 then NaN else signed_inf (- x))"
| "times_double PosInf (Fin y) = (if y = 0 then NaN else signed_inf y)"
| "times_double NegInf (Fin y) = (if y = 0 then NaN else signed_inf (- y))"
| "times_double PosInf PosInf = PosInf"
| "times_double PosInf NegInf = NegInf"
| "times_double NegInf PosInf = NegInf"
| "times_double NegInf NegInf = PosInf"

fun divide_double :: "double \<Rightarrow> double \<Rightarrow> double" where
  "divide_double NaN b = NaN"
| "divide_double a NaN = NaN"
| "divide_double (Fin x) (Fin y) =
     (if y = 0 then (if x = 0 then NaN else signed_inf x) else Fin (x / y))"
| "divide_double (Fin x) PosInf = Fin 0"
| "divide_double (Fin x) NegInf = Fin 0"
| "divide_double PosInf (Fin y) = signed_inf y"
| "divide_double NegInf (Fin y) = signed_inf (- y)"
| "divide_double PosInf b = NaN"
| "divide_double NegInf b = NaN"

definition inverse_double :: "double \<Rightarrow> double" where
  "inverse_double a = (Fin 1 :: double) div a"

instance ..

end

text \<open>\<^verbatim>\<open>std::sqrt\<close>: NaN for a negative argument.\<close>

fun sqrt_double :: "double \<Rightarrow> double" where
  "sqrt_double (Fin x) = (if x < 0 then NaN else Fin (sqrt x))"
| "sqrt_double PosInf = PosInf"
| "sqrt_double NegInf = NaN"
| "sqrt_double NaN = NaN"

text \<open>\<^verbatim>\<open>isnan\<close> of \<^verbatim>\<open><cmath>\<close>.\<close>

fun isnan :: "double \<Rightarrow> bool" where
  "isnan NaN = True"
| "isnan a = False"

text \<open>
  The conversions of C++. A \<^verbatim>\<open>bool\<close> operand of a double multiplication is promoted to
  0.0 or 1.0, and an \<^verbatim>\<open>int\<close> operand to the double of the same value. A double stored
  into an \<^verbatim>\<open>int\<close> is truncated toward zero; when the truncated value is not an \<^verbatim>\<open>int\<close>
  (32 bits, two's complement), and for an infinity or NaN, the behaviour of the program
  is undefined, which is the value \<open>None\<close>.
\<close>

definition bool_to_double :: "bool \<Rightarrow> double" where
  "bool_to_double c = (if c then Fin 1 else Fin 0)"

definition int_to_double :: "int \<Rightarrow> double" where
  "int_to_double i = Fin (of_int i)"

definition truncate_real :: "real \<Rightarrow> int" where
  "truncate_real x = (if 0 \<le> x then \<lfloor>x\<rfloor> else \<lceil>x\<rceil>)"

definition INT_MIN :: int where
  "INT_MIN = - (2 ^ 31)"

definition INT_MAX :: int where
  "INT_MAX = 2 ^ 31 - 1"

fun double_to_int :: "double \<Rightarrow> int option" where
  "double_to_int (Fin x) =
     (if INT_MIN \<le> truncate_real x \<and> truncate_real x \<le> INT_MAX
      then Some (truncate_real x) else None)"
| "double_to_int a = None"

subsection \<open>Quantum numbers, states and parameters\<close>

text \<open>
  Every evaluator reads the quantum numbers of its states into locals of type
  \<^verbatim>\<open>std::size_t\<close> and takes \<^verbatim>\<open>T0\<close> and \<^verbatim>\<open>Abody\<close> as \<^verbatim>\<open>std::size_t\<close>: 64-bit words.
  The state classes are declared in \<^verbatim>\<open>basis/lsjt_scheme.h\<close>; a state is the record of
  what its accessors return, the field \<open>st_n\<close> for \<^verbatim>\<open>n()\<close>, \<open>cm_Nr\<close> for \<^verbatim>\<open>Nr()\<close> and
  so on.
\<close>

type_synonym size_t = "64 word"

record RelativeStateLSJT =
  st_n :: size_t
  st_L :: size_t
  st_S :: size_t
  st_J :: size_t
  st_T :: size_t

record RelativeCMStateLSJT =
  cm_Nr :: size_t
  cm_lr :: size_t
  cm_Nc :: size_t
  cm_lc :: size_t
  cm_L :: size_t
  cm_S :: size_t
  cm_J :: size_t
  cm_T :: size_t

text \<open>\<^verbatim>\<open>util::OscillatorParameter\<close>, with its accessors \<^verbatim>\<open>relative()\<close> and \<^verbatim>\<open>cm()\<close>.\<close>

record OscillatorParameter =
  relative :: double
  cm :: double

text \<open>
  Modelled from the spec: the struct \<^verbatim>\<open>quadrature::gsl_params_2n\<close> is declared in
  \<^verbatim>\<open>integrals.h\<close>, which is not among the sources. The spec gives the bundle as
  bra-n, bra-L, ket-n, ket-L, regularize-flag, scaled-regulator, scaled-pion-mass; the
  evaluators fill it by position, with a brace initialiser of seven values.
\<close>

record gsl_params_2n =
  bra_n :: size_t
  bra_L :: size_t
  ket_n :: size_t
  ket_L :: size_t
  regularize_flag :: bool
  scaled_regulator :: double
  scaled_pion_mass :: double

subsection \<open>The libraries the evaluators call\<close>

text \<open>
  The constants (\<^verbatim>\<open>constants.h\<close>), the angular-momentum library (\<^verbatim>\<open>rme_extras.h\<close>,
  namespace \<^verbatim>\<open>am\<close>), the oscillator norms (\<^verbatim>\<open>threedho.h\<close>, namespace \<^verbatim>\<open>ho\<close>) and
  the radial quadratures (\<^verbatim>\<open>integrals.h\<close>, namespace \<^verbatim>\<open>quadrature\<close>) are not among the
  sources. They are pure functions to doubles and named doubles, so every evaluator
  takes them as a parameter: a record with one field for each constant and each
  function that \<^verbatim>\<open>m1.cpp\<close> uses. Quantum numbers are passed as \<^verbatim>\<open>std::size_t\<close>, the
  integer literals of a call (tensor ranks) as \<open>int\<close>.
\<close>

record constants =
  isoscalar_nucleon_magnetic_moment :: double
  isovector_nucleon_magnetic_moment :: double
  pion_mass_fm :: double
  gA :: double
  d18_fm :: double
  d9_fm :: double
  L2_fm :: double
  pi_constant :: double
  nuclear_magneton_fm :: double
  pion_decay_constant_fm :: double
  nucleon_mass_fm :: double

type_synonym rme6 =
  "size_t \<Rightarrow> size_t \<Rightarrow> size_t \<Rightarrow> size_t \<Rightarrow> size_t \<Rightarrow> size_t \<Rightarrow> double"

type_synonym rme6_2 =
  "size_t \<Rightarrow> size_t \<Rightarrow> size_t \<Rightarrow> size_t \<Rightarrow> size_t \<Rightarrow> size_t \<Rightarrow> int \<Rightarrow> int \<Rightarrow> double"

type_synonym rme6_3 =
  "size_t \<Rightarrow> size_t \<Rightarrow> size_t \<Rightarrow> size_t \<Rightarrow> size_t \<Rightarrow> size_t \<Rightarrow> int \<Rightarrow> int \<Rightarrow> int \<Rightarrow> double"

type_synonym rme10 =
  "size_t \<Rightarrow> size_t \<Rightarrow> size_t \<Rightarrow> size_t \<Rightarrow> size_t \<Rightarrow> size_t \<Rightarrow> size_t \<Rightarrow> size_t \<Rightarrow> size_t \<Rightarrow> size_t
     \<Rightarrow> double"

type_synonym rme10_4 =
  "size_t \<Rightarrow> size_t \<Rightarrow> size_t \<Rightarrow> size_t \<Rightarrow> size_t \<Rightarrow> size_t \<Rightarrow> size_t \<Rightarrow> size_t \<Rightarrow> size_t \<Rightarrow> size_t
     \<Rightarrow> int \<Rightarrow> int \<Rightarrow> int \<Rightarrow> int \<Rightarrow> double"

type_synonym rme10_5 =
  "size_t \<Rightarrow> size_t \<Rightarrow> size_t \<Rightarrow> size_t \<Rightarrow> size_t \<Rightarrow> size_t \<Rightarrow> size_t \<Rightarrow> size_t \<Rightarrow> size_t \<Rightarrow> size_t
     \<Rightarrow> int \<Rightarrow> int \<Rightarrow> int \<Rightarrow> int \<Rightarrow> int \<Rightarrow> double"

type_synonym me4 = "size_t \<Rightarrow> size_t \<Rightarrow> size_t \<Rightarrow> size_t \<Rightarrow> double"

record am =
  RelativeSpinSymmetricRME :: rme6_2
  RelativeSpinAntisymmetricRME :: rme6_2
  SpinSymmetricRME :: "size_t \<Rightarrow> size_t \<Rightarrow> double"
  SpinAntisymmetricRME :: "size_t \<Rightarrow> size_t \<Rightarrow> double"
  RelativeLrelRME :: rme6
  RelativePauliProductRME :: rme6_3
  PauliProductRME :: "size_t \<Rightarrow> size_t \<Rightarrow> int \<Rightarrow> double"
  RelativeCMSpinSymmetricRME :: rme10_4
  RelativeCMSpinAntisymmetricRME :: rme10_4
  RelativeCMLsumRME :: rme10
  GradientME :: me4
  RadiusME :: me4
  RelativeCMPauliProductRME :: rme10_5

record ho =
  CoordinateSpaceNorm :: "size_t \<Rightarrow> size_t \<Rightarrow> int \<Rightarrow> double"

record quadrature =
  IntegralZPiYPiR :: "gsl_params_2n \<Rightarrow> double"
  IntegralTPiYPiR :: "gsl_params_2n \<Rightarrow> double"
  IntegralMPiRWPiRYPiR :: "gsl_params_2n \<Rightarrow> double"
  IntegralYPiR :: "gsl_params_2n \<Rightarrow> double"
  IntegralWPiRYPiR :: "gsl_params_2n \<Rightarrow> double"
  IntegralRegularizedDelta :: "gsl_params_2n \<Rightarrow> double"
  IntegralMPiR :: me4

record externals =
  constants_of :: constants
  am_of :: am
  ho_of :: ho
  quadrature_of :: quadrature

text \<open>
  Modelled from the spec: \<^verbatim>\<open>square\<close> and \<^verbatim>\<open>cube\<close> come from \<^verbatim>\<open>utility.h\<close>, which is not
  among the sources. The spec reads them as the second and the third power (the pion
  mass cubed, the decay constant squared, the inverse cube of the oscillator length).
\<close>

definition square :: "double \<Rightarrow> double" where
  "square x = x * x"

definition cube :: "double \<Rightarrow> double" where
  "cube x = x * x * x"

section \<open>The M1 operator: \<^verbatim>\<open>m1.cpp\<close>\<close>

text \<open>
  Each function of \<^verbatim>\<open>m1.cpp\<close> is overloaded for the two state representations. The
  model of the overload on \<^verbatim>\<open>RelativeStateLSJT\<close> carries the suffix \<open>_Relative\<close>, the one
  on \<^verbatim>\<open>RelativeCMStateLSJT\<close> the suffix \<open>_RelativeCM\<close>.
\<close>

subsection \<open>NLO, relative states\<close>

definition NLO1Body_Relative ::
  "externals \<Rightarrow> RelativeStateLSJT \<Rightarrow> RelativeStateLSJT \<Rightarrow> size_t \<Rightarrow> double" where
  "NLO1Body_Relative e bra ket T0 =
     (let nr = st_n ket; nrp = st_n bra;
          L = st_L ket; Lp = st_L bra;
          S = st_S ket; Sp = st_S bra;
          J = st_J ket; Jp = st_J bra;
          T = st_T ket; Tp = st_T bra
      in if nr \<noteq> nrp \<or> L \<noteq> Lp then 0
         else
           let symm_rme_spin = RelativeSpinSymmetricRME (am_of e) Lp L Sp S Jp J 0 1;
               symm_rme_isospin = SpinSymmetricRME (am_of e) Tp T;
               asymm_rme_spin = RelativeSpinAntisymmetricRME (am_of e) Lp L Sp S Jp J 0 1;
               asymm_rme_isospin = SpinAntisymmetricRME (am_of e) Tp T;
               delta_T = (Tp = T)
           in if T0 = 0 then
                let spin_symm_term =
                      isoscalar_nucleon_magnetic_moment (constants_of e)
                        * symm_rme_spin * bool_to_double delta_T;
                    oam_term =
                      Fin (1 / 2) * RelativeLrelRME (am_of e) Lp L Sp S Jp J
                        * bool_to_double delta_T
                in spin_symm_term + oam_term
              else if T0 = 1 then
                let spin_symm_term =
                      isovector_nucleon_magnetic_moment (constants_of e)
                        * symm_rme_spin * symm_rme_isospin;
                    spin_asymm_term =
                      isovector_nucleon_magnetic_moment (constants_of e)
                        * asymm_rme_spin * asymm_rme_isospin;
                    oam_term =
                      Fin (1 / 2) * RelativeLrelRME (am_of e) Lp L Sp S Jp J
                        * symm_rme_isospin
                in spin_symm_term + spin_asymm_term + oam_term
              else 0)"

text \<open>
  The parameters of the integration routines, as \<^verbatim>\<open>NLO2Body\<close> builds them (the relative
  oscillator parameter, the two scalings and the initialiser of \<^verbatim>\<open>prel\<close>).
\<close>

definition NLO2Body_prel ::
  "externals \<Rightarrow> RelativeStateLSJT \<Rightarrow> RelativeStateLSJT \<Rightarrow> OscillatorParameter
     \<Rightarrow> bool \<Rightarrow> double \<Rightarrow> gsl_params_2n" where
  "NLO2Body_prel e bra ket b regularize regulator =
     (let nr = st_n ket; nrp = st_n bra;
          L = st_L ket; Lp = st_L bra;
          brel = relative b;
          scaled_regulator_rel = regulator / brel;
          scaled_pion_mass_rel = pion_mass_fm (constants_of e) * brel
      in \<lparr>bra_n = nrp, bra_L = Lp, ket_n = nr, ket_L = L, regularize_flag = regularize,
          scaled_regulator = scaled_regulator_rel,
          scaled_pion_mass = scaled_pion_mass_rel\<rparr>)"

definition NLO2Body_Relative ::
  "externals \<Rightarrow> RelativeStateLSJT \<Rightarrow> RelativeStateLSJT \<Rightarrow> OscillatorParameter
     \<Rightarrow> bool \<Rightarrow> double \<Rightarrow> size_t \<Rightarrow> double" where
  "NLO2Body_Relative e bra ket b regularize regulator T0 =
     (if T0 \<noteq> 1 then 0
      else
        let nr = st_n ket; nrp = st_n bra;
            L = st_L ket; Lp = st_L bra;
            S = st_S ket; Sp = st_S bra;
            J = st_J ket; Jp = st_J bra;
            T = st_T ket; Tp = st_T bra;
            prel = NLO2Body_prel e bra ket b regularize regulator;
            norm_product_rel =
              CoordinateSpaceNorm (ho_of e) nr L 1 * CoordinateSpaceNorm (ho_of e) nrp Lp 1;
            zpi_integral = norm_product_rel * IntegralZPiYPiR (quadrature_of e) prel;
            tpi_integral = norm_product_rel * IntegralTPiYPiR (quadrature_of e) prel;
            A6S1_rme =
              sqrt_double (Fin 10) * RelativePauliProductRME (am_of e) Lp L Sp S Jp J 2 1 1;
            S1_rme = RelativePauliProductRME (am_of e) Lp L Sp S Jp J 0 1 1;
            T1_rme = PauliProductRME (am_of e) Tp T 1;
            lecp0 =
              gA (constants_of e) * d18_fm (constants_of e)
                * cube (pion_mass_fm (constants_of e));
            lecp =
              lecp0
                / (Fin 12 * pi_constant (constants_of e) * nuclear_magneton_fm (constants_of e)
                     * square (pion_decay_constant_fm (constants_of e)));
            result0 = A6S1_rme * zpi_integral + S1_rme * tpi_integral;
            result = result0 * (lecp * T1_rme)
        in if isnan result then 0 else result)"

subsection \<open>NLO, relative and centre-of-mass states\<close>

definition NLO1Body_RelativeCM ::
  "externals \<Rightarrow> RelativeCMStateLSJT \<Rightarrow> RelativeCMStateLSJT \<Rightarrow> size_t \<Rightarrow> double" where
  "NLO1Body_RelativeCM e bra ket T0 =
     (let nr = cm_Nr ket; nrp = cm_Nr bra;
          lr = cm_lr ket; lrp = cm_lr bra;
          nc = cm_Nc ket; ncp = cm_Nc bra;
          lc = cm_lc ket; lcp = cm_lc bra;
          L = cm_L ket; Lp = cm_L bra;
          S = cm_S ket; Sp = cm_S bra;
          J = cm_J ket; Jp = cm_J bra;
          T = cm_T ket; Tp = cm_T bra;
          symm_rme_spin =
            RelativeCMSpinSymmetricRME (am_of e) lrp lr lcp lc Lp L Sp S Jp J 0 0 0 1;
          symm_rme_isospin = SpinSymmetricRME (am_of e) Tp T;
          asymm_rme_spin =
            RelativeCMSpinAntisymmetricRME (am_of e) lrp lr lcp lc Lp L Sp S Jp J 0 0 0 1;
          asymm_rme_isospin = SpinAntisymmetricRME (am_of e) Tp T;
          delta_T = (Tp = T);
          lsum_me =
            RelativeCMLsumRME (am_of e) lrp lr lcp lc Lp L Sp S Jp J
              * bool_to_double (nrp = nr \<and> ncp = nc);
          mass_ratio_sqrt = Fin (1 / 2);
          rcm_prel_me =
            mass_ratio_sqrt * GradientME (am_of e) nrp nr lrp lr
              * RadiusME (am_of e) ncp nc lcp lc;
          rrel_pcm_me =
            RadiusME (am_of e) nrp nr lrp lr * GradientME (am_of e) ncp nc lcp lc
              / mass_ratio_sqrt;
          result =
            (if T0 = 0 then
               let spin_term =
                     isoscalar_nucleon_magnetic_moment (constants_of e)
                       * symm_rme_spin * bool_to_double delta_T;
                   oam_term =
                     Fin (1 / 2) * RelativeLrelRME (am_of e) Lp L Sp S Jp J
                       * bool_to_double delta_T
               in spin_term + oam_term
             else if T0 = 1 then
               let spin_symm_term =
                     isovector_nucleon_magnetic_moment (constants_of e)
                       * symm_rme_spin * symm_rme_isospin;
                   spin_asymm_term =
                     isovector_nucleon_magnetic_moment (constants_of e)
                       * asymm_rme_spin * asymm_rme_isospin;
                   oam_diagonal_term = Fin (1 / 2) * lsum_me * symm_rme_isospin;
                   oam_cross_term =
                     Fin (1 / 2) * (Fin 2 * rcm_prel_me + Fin (1 / 2) * rrel_pcm_me)
                       * asymm_rme_isospin
               in spin_symm_term + spin_asymm_term + oam_diagonal_term + oam_cross_term
             else 0)
      in if isnan result then 0 else result)"

text \<open>
  \<^verbatim>\<open>NLO2Body\<close> on relative and centre-of-mass states, in the parts its final result is
  made of: the parameters \<^verbatim>\<open>prel\<close>, the product \<^verbatim>\<open>norm_product_rel\<close>, the prefactor
  \<^verbatim>\<open>lec_prefactor\<close>, the value of \<^verbatim>\<open>relative_cm\<close>, and the double that the branch on
  the centre-of-mass quantum numbers assigns to \<^verbatim>\<open>relative\<close>. The locals
  \<^verbatim>\<open>scaled_regulator_cm\<close> and \<^verbatim>\<open>scaled_pion_mass_cm\<close> are computed and never used.
\<close>

definition NLO2Body_RelativeCM_prel ::
  "externals \<Rightarrow> RelativeCMStateLSJT \<Rightarrow> RelativeCMStateLSJT \<Rightarrow> OscillatorParameter
     \<Rightarrow> bool \<Rightarrow> double \<Rightarrow> gsl_params_2n" where
  "NLO2Body_RelativeCM_prel e bra ket b regularize regulator =
     (let nr = cm_Nr ket; nrp = cm_Nr bra;
          lr = cm_lr ket; lrp = cm_lr bra;
          brel = relative b;
          scaled_regulator_rel = regulator / brel;
          scaled_pion_mass_rel = pion_mass_fm (constants_of e) * brel
      in \<lparr>bra_n = nrp, bra_L = lrp, ket_n = nr, ket_L = lr, regularize_flag = regularize,
          scaled_regulator = scaled_regulator_rel,
          scaled_pion_mass = scaled_pion_mass_rel\<rparr>)"

definition NLO2Body_RelativeCM_norm_product_rel ::
  "externals \<Rightarrow> RelativeCMStateLSJT \<Rightarrow> RelativeCMStateLSJT \<Rightarrow> double" where
  "NLO2Body_RelativeCM_norm_product_rel e bra ket =
     (let nr = cm_Nr ket; nrp = cm_Nr bra;
          lr = cm_lr ket; lrp = cm_lr bra
      in CoordinateSpaceNorm (ho_of e) nr lr 1 * CoordinateSpaceNorm (ho_of e) nrp lrp 1)"

definition NLO2Body_RelativeCM_lec_prefactor :: "externals \<Rightarrow> double" where
  "NLO2Body_RelativeCM_lec_prefactor e =
     (let num =
            gA (constants_of e) * cube (pion_mass_fm (constants_of e))
              * d18_fm (constants_of e);
          denom =
            Fin 12 * pi_constant (constants_of e)
              * square (pion_decay_constant_fm (constants_of e));
          lec_prefactor = num / denom
      in lec_prefactor / nuclear_magneton_fm (constants_of e))"

definition NLO2Body_RelativeCM_relative_cm ::
  "externals \<Rightarrow> RelativeCMStateLSJT \<Rightarrow> RelativeCMStateLSJT \<Rightarrow> OscillatorParameter
     \<Rightarrow> bool \<Rightarrow> double \<Rightarrow> double" where
  "NLO2Body_RelativeCM_relative_cm e bra ket b regularize regulator =
     (let lr = cm_lr ket; lrp = cm_lr bra;
          nc = cm_Nc ket; ncp = cm_Nc bra;
          lc = cm_lc ket; lcp = cm_lc bra;
          L = cm_L ket; Lp = cm_L bra;
          S = cm_S ket; Sp = cm_S bra;
          J = cm_J ket; Jp = cm_J bra;
          bcm = cm b;
          prel = NLO2Body_RelativeCM_prel e bra ket b regularize regulator;
          mpir_integral =
            pion_mass_fm (constants_of e) * bcm * IntegralMPiR (quadrature_of e) ncp nc lcp lc;
          norm_product_rel = NLO2Body_RelativeCM_norm_product_rel e bra ket;
          mpir_wpi_integral =
            norm_product_rel * IntegralMPiRWPiRYPiR (quadrature_of e) prel;
          A1_rme =
            - sqrt_double (Fin 3)
              * RelativeCMPauliProductRME (am_of e) lrp lr lcp lc Lp L Sp S Jp J 1 1 1 0 1;
          A2_rme =
            sqrt_double (Fin (3 / 5))
              * RelativeCMPauliProductRME (am_of e) lrp lr lcp lc Lp L Sp S Jp J 1 1 1 2 1;
          A3_rme =
            sqrt_double (Fin (9 / 5))
              * RelativeCMPauliProductRME (am_of e) lrp lr lcp lc Lp L Sp S Jp J 1 1 2 2 1;
          A4_rme =
            sqrt_double (Fin (14 / 5))
              * RelativeCMPauliProductRME (am_of e) lrp lr lcp lc Lp L Sp S Jp J 3 1 2 2 1;
          A5_rme =
            sqrt_double (Fin (28 / 5))
              * RelativeCMPauliProductRME (am_of e) lrp lr lcp lc Lp L Sp S Jp J 3 1 3 2 1;
          api_r = A1_rme + mpir_wpi_integral * (A2_rme + A3_rme + A4_rme + A5_rme)
      in mpir_integral * api_r)"

definition NLO2Body_RelativeCM_relative ::
  "externals \<Rightarrow> RelativeCMStateLSJT \<Rightarrow> RelativeCMStateLSJT \<Rightarrow> OscillatorParameter
     \<Rightarrow> bool \<Rightarrow> double \<Rightarrow> double" where
  "NLO2Body_RelativeCM_relative e bra ket b regularize regulator =
     (let lr = cm_lr ket; lrp = cm_lr bra;
          lc = cm_lc ket; lcp = cm_lc bra;
          L = cm_L ket; Lp = cm_L bra;
          S = cm_S ket; Sp = cm_S bra;
          J = cm_J ket; Jp = cm_J bra;
          prel = NLO2Body_RelativeCM_prel e bra ket b regularize regulator;
          norm_product_rel = NLO2Body_RelativeCM_norm_product_rel e bra ket;
          A6S1_rme =
            sqrt_double (Fin 10)
              * RelativeCMPauliProductRME (am_of e) lrp lr lcp lc Lp L Sp S Jp J 0 2 2 1 1;
          S1_rme =
            RelativeCMPauliProductRME (am_of e) lrp lr lcp lc Lp L Sp S Jp J 0 0 0 1 1;
          zpi_integral = norm_product_rel * IntegralZPiYPiR (quadrature_of e) prel;
          tpi_integral = norm_product_rel * IntegralTPiYPiR (quadrature_of e) prel
      in zpi_integral * A6S1_rme + tpi_integral * S1_rme)"

text \<open>
  The last statements of \<^verbatim>\<open>NLO2Body\<close>, for a given value of the local \<^verbatim>\<open>relative\<close>:
  the product with the prefactor and the isospin element, and the test for NaN. The
  local is declared \<^verbatim>\<open>auto relative = 0\<close>, so its type is \<^verbatim>\<open>int\<close>, and the sum
  \<^verbatim>\<open>relative_cm + relative\<close> converts it to double.
\<close>

definition NLO2Body_RelativeCM_result ::
  "externals \<Rightarrow> RelativeCMStateLSJT \<Rightarrow> RelativeCMStateLSJT \<Rightarrow> OscillatorParameter
     \<Rightarrow> bool \<Rightarrow> double \<Rightarrow> int \<Rightarrow> double" where
  "NLO2Body_RelativeCM_result e bra ket b regularize regulator relative1 =
     (let T = cm_T ket; Tp = cm_T bra;
          T1_rme = PauliProductRME (am_of e) Tp T 1;
          lec_prefactor = NLO2Body_RelativeCM_lec_prefactor e;
          relative_cm = NLO2Body_RelativeCM_relative_cm e bra ket b regularize regulator;
          result = lec_prefactor * T1_rme * (relative_cm + int_to_double relative1)
      in if isnan result then 0 else result)"

text \<open>
  The evaluator. The assignment to \<^verbatim>\<open>relative\<close> in the branch converts the double to
  \<^verbatim>\<open>int\<close>; the evaluator returns \<open>None\<close> when that conversion is undefined.
\<close>

definition NLO2Body_RelativeCM ::
  "externals \<Rightarrow> RelativeCMStateLSJT \<Rightarrow> RelativeCMStateLSJT \<Rightarrow> OscillatorParameter
     \<Rightarrow> bool \<Rightarrow> double \<Rightarrow> size_t \<Rightarrow> double option" where
  "NLO2Body_RelativeCM e bra ket b regularize regulator T0 =
     (if T0 \<noteq> 1 then Some 0
      else
        let nc = cm_Nc ket; ncp = cm_Nc bra;
            lc = cm_lc ket; lcp = cm_lc bra;
            relative0 = (0 :: int)
        in case (if ncp = nc \<and> lcp = lc
                 then double_to_int
                        (NLO2Body_RelativeCM_relative e bra ket b regularize regulator)
                 else Some relative0) of
             None \<Rightarrow> None
           | Some relative1 \<Rightarrow>
               Some (NLO2Body_RelativeCM_result e bra ket b regularize regulator relative1))"

subsection \<open>N3LO, the isoscalar two-body term\<close>

text \<open>
  \<^verbatim>\<open>N3LO2BodyIsoscalar\<close> on relative states, in the parts its result is made of: the
  parameters \<^verbatim>\<open>prel\<close>, the rank-(0,1) spin element \<^verbatim>\<open>S_rme\<close>, the value of \<^verbatim>\<open>d9_term\<close>
  and the value of \<^verbatim>\<open>L2_term\<close> after its branch.
\<close>

definition N3LO2BodyIsoscalar_prel ::
  "externals \<Rightarrow> RelativeStateLSJT \<Rightarrow> RelativeStateLSJT \<Rightarrow> OscillatorParameter
     \<Rightarrow> bool \<Rightarrow> double \<Rightarrow> gsl_params_2n" where
  "N3LO2BodyIsoscalar_prel e bra ket b regularize regulator =
     (let nr = st_n ket; nrp = st_n bra;
          L = st_L ket; Lp = st_L bra;
          brel = relative b;
          scaled_regulator_rel = regulator / brel;
          scaled_pion_mass_rel = pion_mass_fm (constants_of e) * brel
      in \<lparr>bra_n = nrp, bra_L = Lp, ket_n = nr, ket_L = L, regularize_flag = regularize,
          scaled_regulator = scaled_pion_mass_rel,
          scaled_pion_mass = scaled_regulator_rel\<rparr>)"

definition N3LO2BodyIsoscalar_S_rme ::
  "externals \<Rightarrow> RelativeStateLSJT \<Rightarrow> RelativeStateLSJT \<Rightarrow> double" where
  "N3LO2BodyIsoscalar_S_rme e bra ket =
     (let L = st_L ket; Lp = st_L bra;
          S = st_S ket; Sp = st_S bra;
          J = st_J ket; Jp = st_J bra
      in RelativeSpinSymmetricRME (am_of e) Lp L Sp S Jp J 0 1)"

definition N3LO2BodyIsoscalar_d9_term ::
  "externals \<Rightarrow> RelativeStateLSJT \<Rightarrow> RelativeStateLSJT \<Rightarrow> OscillatorParameter
     \<Rightarrow> bool \<Rightarrow> double \<Rightarrow> double" where
  "N3LO2BodyIsoscalar_d9_term e bra ket b regularize regulator =
     (let nr = st_n ket; nrp = st_n bra;
          L = st_L ket; Lp = st_L bra;
          S = st_S ket; Sp = st_S bra;
          J = st_J ket; Jp = st_J bra;
          T = st_T ket; Tp = st_T bra;
          S_rme = N3LO2BodyIsoscalar_S_rme e bra ket;
          prel = N3LO2BodyIsoscalar_prel e bra ket b regularize regulator;
          T0_rme = PauliProductRME (am_of e) Tp T 0;
          norm_product =
            CoordinateSpaceNorm (ho_of e) nr L 1 * CoordinateSpaceNorm (ho_of e) nrp Lp 1;
          ypi_integral = norm_product * IntegralYPiR (quadrature_of e) prel;
          wpi_integral = norm_product * IntegralWPiRYPiR (quadrature_of e) prel;
          A6S_rme =
            sqrt_double (Fin 10) * RelativeSpinSymmetricRME (am_of e) Lp L Sp S Jp J 2 1;
          d9_prefactor0 =
            gA (constants_of e) * d9_fm (constants_of e)
              * cube (pion_mass_fm (constants_of e));
          d9_prefactor =
            d9_prefactor0
              / (sqrt_double (Fin 3) * pi_constant (constants_of e)
                   * square (pion_decay_constant_fm (constants_of e)))
      in d9_prefactor * T0_rme * (wpi_integral * A6S_rme - ypi_integral * S_rme))"

definition N3LO2BodyIsoscalar_L2_term ::
  "externals \<Rightarrow> RelativeStateLSJT \<Rightarrow> RelativeStateLSJT \<Rightarrow> OscillatorParameter
     \<Rightarrow> bool \<Rightarrow> double \<Rightarrow> double" where
  "N3LO2BodyIsoscalar_L2_term e bra ket b regularize regulator =
     (let L = st_L ket; Lp = st_L bra;
          T = st_T ket; Tp = st_T bra;
          S_rme = N3LO2BodyIsoscalar_S_rme e bra ket;
          brel = relative b;
          prel = N3LO2BodyIsoscalar_prel e bra ket b regularize regulator;
          L2_term = (0 :: double)
      in if L = 0 \<and> L = 0 \<and> Tp = T then
           let delta_integral =
                 IntegralRegularizedDelta (quadrature_of e) prel / cube brel
           in L2_term + Fin 2 * L2_fm (constants_of e) * S_rme * delta_integral
         else L2_term)"

definition N3LO2BodyIsoscalar_Relative ::
  "externals \<Rightarrow> RelativeStateLSJT \<Rightarrow> RelativeStateLSJT \<Rightarrow> OscillatorParameter
     \<Rightarrow> bool \<Rightarrow> double \<Rightarrow> size_t \<Rightarrow> double" where
  "N3LO2BodyIsoscalar_Relative e bra ket b regularize regulator T0 =
     (let d9_term = N3LO2BodyIsoscalar_d9_term e bra ket b regularize regulator;
          L2_term = N3LO2BodyIsoscalar_L2_term e bra ket b regularize regulator;
          result0 = d9_term + L2_term;
          result = result0 * (Fin 2 * nucleon_mass_fm (constants_of e))
      in if isnan result then 0 else result)"

definition N3LO2BodyIsoscalar_RelativeCM ::
  "RelativeCMStateLSJT \<Rightarrow> RelativeCMStateLSJT \<Rightarrow> OscillatorParameter
     \<Rightarrow> bool \<Rightarrow> double \<Rightarrow> size_t \<Rightarrow> double" where
  "N3LO2BodyIsoscalar_RelativeCM bra ket b regularize regulator T0 = 0"

subsection \<open>The methods of \<^verbatim>\<open>M1Operator\<close>\<close>

definition LOMatrixElement_Relative ::
  "RelativeStateLSJT \<Rightarrow> RelativeStateLSJT \<Rightarrow> OscillatorParameter
     \<Rightarrow> bool \<Rightarrow> double \<Rightarrow> size_t \<Rightarrow> size_t \<Rightarrow> double" where
  "LOMatrixElement_Relative bra ket b regularize regulator T0 Abody = 0"

definition LOMatrixElement_RelativeCM ::
  "RelativeCMStateLSJT \<Rightarrow> RelativeCMStateLSJT \<Rightarrow> OscillatorParameter
     \<Rightarrow> bool \<Rightarrow> double \<Rightarrow> size_t \<Rightarrow> size_t \<Rightarrow> double" where
  "LOMatrixElement_RelativeCM bra ket b regularize regulator T0 Abody = 0"

definition NLOMatrixElement_Relative ::
  "externals \<Rightarrow> RelativeStateLSJT \<Rightarrow> RelativeStateLSJT \<Rightarrow> OscillatorParameter
     \<Rightarrow> bool \<Rightarrow> double \<Rightarrow> size_t \<Rightarrow> size_t \<Rightarrow> double" where
  "NLOMatrixElement_Relative e bra ket b regularize regulator T0 Abody =
     (if Abody = 1 then NLO1Body_Relative e bra ket T0
      else if Abody = 2 then NLO2Body_Relative e bra ket b regularize regulator T0
      else 0)"

definition NLOMatrixElement_RelativeCM ::
  "externals \<Rightarrow> RelativeCMStateLSJT \<Rightarrow> RelativeCMStateLSJT \<Rightarrow> OscillatorParameter
     \<Rightarrow> bool \<Rightarrow> double \<Rightarrow> size_t \<Rightarrow> size_t \<Rightarrow> double option" where
  "NLOMatrixElement_RelativeCM e bra ket b regularize regulator T0 Abody =
     (if Abody = 1 then Some (NLO1Body_RelativeCM e bra ket T0)
      else if Abody = 2 then NLO2Body_RelativeCM e bra ket b regularize regulator T0
      else Some 0)"

definition N2LOMatrixElement_Relative ::
  "RelativeStateLSJT \<Rightarrow> RelativeStateLSJT \<Rightarrow> OscillatorParameter
     \<Rightarrow> bool \<Rightarrow> double \<Rightarrow> size_t \<Rightarrow> size_t \<Rightarrow> double" where
  "N2LOMatrixElement_Relative bra ket b regularize regulator T0 Abody = 0"

definition N2LOMatrixElement_RelativeCM ::
  "RelativeCMStateLSJT \<Rightarrow> RelativeCMStateLSJT \<Rightarrow> OscillatorParameter
     \<Rightarrow> bool \<Rightarrow> double \<Rightarrow> size_t \<Rightarrow> size_t \<Rightarrow> double" where
  "N2LOMatrixElement_RelativeCM bra ket b regularize regulator T0 Abody = 0"

definition N3LOMatrixElement_Relative ::
  "externals \<Rightarrow> RelativeStateLSJT \<Rightarrow> RelativeStateLSJT \<Rightarrow> OscillatorParameter
     \<Rightarrow> bool \<Rightarrow> double \<Rightarrow> size_t \<Rightarrow> size_t \<Rightarrow> double" where
  "N3LOMatrixElement_Relative e bra ket b regularize regulator T0 Abody =
     (let result = N3LO2BodyIsoscalar_Relative e bra ket b regularize regulator T0
      in result)"

definition N3LOMatrixElement_RelativeCM ::
  "RelativeCMStateLSJT \<Rightarrow> RelativeCMStateLSJT \<Rightarrow> OscillatorParameter
     \<Rightarrow> bool \<Rightarrow> double \<Rightarrow> size_t \<Rightarrow> size_t \<Rightarrow> double" where
  "N3LOMatrixElement_RelativeCM bra ket b regularize regulator T0 Abody =
     (if Abody = 1 then 0
      else if Abody = 2 then N3LO2BodyIsoscalar_RelativeCM bra ket b regularize regulator T0
      else 0)"

definition N4LOMatrixElement_Relative ::
  "RelativeStateLSJT \<Rightarrow> RelativeStateLSJT \<Rightarrow> OscillatorParameter
     \<Rightarrow> bool \<Rightarrow> double \<Rightarrow> size_t \<Rightarrow> size_t \<Rightarrow> double" where
  "N4LOMatrixElement_Relative bra ket b regularize regulator T0 Abody = 0"

definition N4LOMatrixElement_RelativeCM ::
  "RelativeCMStateLSJT \<Rightarrow> RelativeCMStateLSJT \<Rightarrow> OscillatorParameter
     \<Rightarrow> bool \<Rightarrow> double \<Rightarrow> size_t \<Rightarrow> size_t \<Rightarrow> double" where
  "N4LOMatrixElement_RelativeCM bra ket b regularize regulator T0 Abody = 0"

subsection \<open>A sample of the libraries, for evaluating the evaluators\<close>

text \<open>
  A closed instance of the parameters: every constant is 1.0, and every matrix element,
  norm and radial integral evaluates to 1.0 at every argument. The second instance
  differs in two integrals: \<^verbatim>\<open>IntegralZPiYPiR\<close> evaluates to 0.0 and \<^verbatim>\<open>IntegralTPiYPiR\<close>
  to 0.5. In the third, every radial integral over a parameter bundle evaluates to the
  sixth value of the bundle it is called with, so the result of an evaluator shows
  which value it passed there. The fourth differs from the first in one function:
  \<^verbatim>\<open>am::RelativeSpinSymmetricRME\<close> evaluates to NaN.
\<close>

definition unit_constants :: constants where
  "unit_constants =
     \<lparr>isoscalar_nucleon_magnetic_moment = Fin 1, isovector_nucleon_magnetic_moment = Fin 1,
      pion_mass_fm = Fin 1, gA = Fin 1, d18_fm = Fin 1, d9_fm = Fin 1, L2_fm = Fin 1,
      pi_constant = Fin 1, nuclear_magneton_fm = Fin 1, pion_decay_constant_fm = Fin 1,
      nucleon_mass_fm = Fin 1\<rparr>"

definition unit_am :: am where
  "unit_am =
     \<lparr>RelativeSpinSymmetricRME = (\<lambda>Lp L Sp S Jp J r1 r2. Fin 1),
      RelativeSpinAntisymmetricRME = (\<lambda>Lp L Sp S Jp J r1 r2. Fin 1),
      SpinSymmetricRME = (\<lambda>Tp T. Fin 1),
      SpinAntisymmetricRME = (\<lambda>Tp T. Fin 1),
      RelativeLrelRME = (\<lambda>Lp L Sp S Jp J. Fin 1),
      RelativePauliProductRME = (\<lambda>Lp L Sp S Jp J r1 r2 r3. Fin 1),
      PauliProductRME = (\<lambda>Tp T r. Fin 1),
      RelativeCMSpinSymmetricRME = (\<lambda>lrp lr lcp lc Lp L Sp S Jp J r1 r2 r3 r4. Fin 1),
      RelativeCMSpinAntisymmetricRME = (\<lambda>lrp lr lcp lc Lp L Sp S Jp J r1 r2 r3 r4. Fin 1),
      RelativeCMLsumRME = (\<lambda>lrp lr lcp lc Lp L Sp S Jp J. Fin 1),
      GradientME = (\<lambda>np n lp l. Fin 1),
      RadiusME = (\<lambda>np n lp l. Fin 1),
      RelativeCMPauliProductRME = (\<lambda>lrp lr lcp lc Lp L Sp S Jp J r1 r2 r3 r4 r5. Fin 1)\<rparr>"

definition unit_ho :: ho where
  "unit_ho = \<lparr>CoordinateSpaceNorm = (\<lambda>n l r. Fin 1)\<rparr>"

definition unit_quadrature :: quadrature where
  "unit_quadrature =
     \<lparr>IntegralZPiYPiR = (\<lambda>p. Fin 1), IntegralTPiYPiR = (\<lambda>p. Fin 1),
      IntegralMPiRWPiRYPiR = (\<lambda>p. Fin 1), IntegralYPiR = (\<lambda>p. Fin 1),
      IntegralWPiRYPiR = (\<lambda>p. Fin 1), IntegralRegularizedDelta = (\<lambda>p. Fin 1),
      IntegralMPiR = (\<lambda>np n lp l. Fin 1)\<rparr>"

definition unit_externals :: externals where
  "unit_externals =
     \<lparr>constants_of = unit_constants, am_of = unit_am, ho_of = unit_ho,
      quadrature_of = unit_quadrature\<rparr>"

definition half_externals :: externals where
  "half_externals =
     unit_externals
       \<lparr>quadrature_of :=
          unit_quadrature
            \<lparr>IntegralZPiYPiR := (\<lambda>p. Fin 0), IntegralTPiYPiR := (\<lambda>p. Fin (1 / 2))\<rparr>\<rparr>"

definition probe_externals :: externals where
  "probe_externals =
     unit_externals
       \<lparr>quadrature_of :=
          \<lparr>IntegralZPiYPiR = scaled_regulator, IntegralTPiYPiR = scaled_regulator,
           IntegralMPiRWPiRYPiR = scaled_regulator, IntegralYPiR = scaled_regulator,
           IntegralWPiRYPiR = scaled_regulator, IntegralRegularizedDelta = scaled_regulator,
           IntegralMPiR = (\<lambda>np n lp l. Fin 1)\<rparr>\<rparr>"

definition nan_externals :: externals where
  "nan_externals =
     unit_externals
       \<lparr>am_of := unit_am\<lparr>RelativeSpinSymmetricRME := (\<lambda>Lp L Sp S Jp J r1 r2. NaN)\<rparr>\<rparr>"

text \<open>The deuteron channel, its D-wave partner, and a state of each representation.\<close>

definition deuteron :: RelativeStateLSJT where
  "deuteron = \<lparr>st_n = 0, st_L = 0, st_S = 1, st_J = 1, st_T = 0\<rparr>"

definition deuteron_D :: RelativeStateLSJT where
  "deuteron_D = \<lparr>st_n = 0, st_L = 2, st_S = 1, st_J = 1, st_T = 0\<rparr>"

definition deuteron_CM :: RelativeCMStateLSJT where
  "deuteron_CM =
     \<lparr>cm_Nr = 0, cm_lr = 0, cm_Nc = 0, cm_lc = 0, cm_L = 0, cm_S = 1, cm_J = 1, cm_T = 0\<rparr>"

definition unit_b :: OscillatorParameter where
  "unit_b = \<lparr>relative = Fin 1, cm = Fin 1\<rparr>"

section \<open>Properties\<close>

subsection \<open>Facts about doubles and conversions\<close>

lemma NaN_propagates [simp]:
  "a * NaN = NaN" "NaN * a = NaN" "a + NaN = NaN" "NaN + a = NaN"
  by (cases a; simp)+

lemma plus_zero_right: "a + Fin 0 = (a :: double)"
  by (cases a) simp_all

lemma isnan_sanitized: "\<not> isnan (if isnan r then 0 else r)"
  by (simp add: zero_double_def)

text \<open>
  The conversion to \<^verbatim>\<open>int\<close> truncates toward zero: the result is no larger in
  magnitude than the argument and less than 1 away from it.
\<close>

lemma truncate_real_toward_zero:
  "\<bar>real_of_int (truncate_real x)\<bar> \<le> \<bar>x\<bar> \<and> \<bar>x - real_of_int (truncate_real x)\<bar> < 1"
  unfolding truncate_real_def by (simp; linarith)

lemma truncate_real_small: "\<bar>x\<bar> < 1 \<Longrightarrow> truncate_real x = 0"
  unfolding truncate_real_def by (simp; linarith)

lemma zero_is_int: "INT_MIN \<le> 0 \<and> 0 \<le> INT_MAX"
  by (simp add: INT_MIN_def INT_MAX_def)

subsection \<open>Values at the samples\<close>

lemma half_relative:
  "NLO2Body_RelativeCM_relative half_externals deuteron_CM deuteron_CM unit_b False (Fin 1)
     = Fin (1 / 2)"
  by (simp add: NLO2Body_RelativeCM_relative_def NLO2Body_RelativeCM_prel_def
      NLO2Body_RelativeCM_norm_product_rel_def half_externals_def unit_externals_def
      unit_am_def unit_ho_def unit_quadrature_def)

lemma unit_relative:
  "NLO2Body_RelativeCM_relative unit_externals deuteron_CM deuteron_CM unit_b False (Fin 1)
     = Fin (sqrt 10 + 1)"
  by (simp add: NLO2Body_RelativeCM_relative_def NLO2Body_RelativeCM_prel_def
      NLO2Body_RelativeCM_norm_product_rel_def unit_externals_def
      unit_am_def unit_ho_def unit_quadrature_def)

lemma unit_relative_cm:
  "NLO2Body_RelativeCM_relative_cm unit_externals deuteron_CM deuteron_CM unit_b False (Fin 1)
     = Fin (sqrt (3 / 5) + sqrt (9 / 5) + sqrt (14 / 5) + sqrt (28 / 5) - sqrt 3)"
  by (simp add: NLO2Body_RelativeCM_relative_cm_def NLO2Body_RelativeCM_prel_def
      NLO2Body_RelativeCM_norm_product_rel_def unit_externals_def unit_constants_def
      unit_am_def unit_ho_def unit_quadrature_def unit_b_def Let_def)

lemma half_relative_cm:
  "NLO2Body_RelativeCM_relative_cm half_externals deuteron_CM deuteron_CM unit_b False (Fin 1)
     = Fin (sqrt (3 / 5) + sqrt (9 / 5) + sqrt (14 / 5) + sqrt (28 / 5) - sqrt 3)"
  by (simp add: NLO2Body_RelativeCM_relative_cm_def NLO2Body_RelativeCM_prel_def
      NLO2Body_RelativeCM_norm_product_rel_def half_externals_def unit_externals_def
      unit_constants_def unit_am_def unit_ho_def unit_quadrature_def unit_b_def Let_def)

lemma unit_lec_prefactor: "NLO2Body_RelativeCM_lec_prefactor unit_externals = Fin (1 / 12)"
  "NLO2Body_RelativeCM_lec_prefactor half_externals = Fin (1 / 12)"
  by (simp_all add: NLO2Body_RelativeCM_lec_prefactor_def half_externals_def
      unit_externals_def unit_constants_def cube_def square_def)

lemma unit_T1_rme: "PauliProductRME (am_of unit_externals) Tp T 1 = Fin 1"
  "PauliProductRME (am_of half_externals) Tp T 1 = Fin 1"
  by (simp_all add: half_externals_def unit_externals_def unit_am_def)

lemma truncate_sqrt_10_plus_1: "truncate_real (sqrt 10 + 1) = 4"
proof -
  have lo: "3 \<le> sqrt 10" by (rule real_le_rsqrt) simp
  have hi: "sqrt 10 < 4" by (rule real_less_lsqrt) simp_all
  have "\<lfloor>sqrt 10 + 1\<rfloor> = 4" using lo hi by (simp add: floor_eq_iff)
  then show ?thesis using lo by (simp add: truncate_real_def)
qed

lemma unit_d9_term:
  "N3LO2BodyIsoscalar_d9_term unit_externals deuteron deuteron unit_b False (Fin 1)
     = Fin ((sqrt 10 - 1) / sqrt 3)"
  by (simp add: N3LO2BodyIsoscalar_d9_term_def N3LO2BodyIsoscalar_S_rme_def
      unit_externals_def unit_constants_def unit_am_def unit_quadrature_def unit_ho_def
      unit_b_def cube_def square_def minus_double_def)

lemma unit_L2_term:
  "N3LO2BodyIsoscalar_L2_term unit_externals deuteron deuteron unit_b False (Fin 1) = Fin 2"
  by (simp add: N3LO2BodyIsoscalar_L2_term_def N3LO2BodyIsoscalar_S_rme_def
      unit_externals_def unit_constants_def unit_am_def unit_quadrature_def unit_b_def
      cube_def zero_double_def deuteron_def)

lemma unit_N3LO2BodyIsoscalar:
  "N3LO2BodyIsoscalar_Relative unit_externals deuteron deuteron unit_b False (Fin 1) 0
     = Fin (((sqrt 10 - 1) / sqrt 3 + 2) * 2)"
  by (simp add: N3LO2BodyIsoscalar_Relative_def unit_d9_term unit_L2_term)
    (simp add: unit_externals_def unit_constants_def)

lemma unit_N3LO_value_positive: "0 < ((sqrt 10 - 1) / sqrt 3 + 2) * 2"
proof -
  have "1 < sqrt 10" by (simp add: real_less_rsqrt)
  then have d9: "0 < (sqrt 10 - 1) / sqrt 3" by simp
  have "0 < (x + 2) * 2" if "0 < x" for x :: real
    using that by simp
  from this [OF d9] show ?thesis .
qed

subsection \<open>Orders without a contribution\<close>

text \<open>
  C10. For all inputs (any quantum numbers, any body count, any \<open>T0\<close>, both state
  representations), \<^verbatim>\<open>LOMatrixElement\<close>, \<^verbatim>\<open>N2LOMatrixElement\<close> and \<^verbatim>\<open>N4LOMatrixElement\<close>
  each return exactly 0.0.
\<close>

theorem LO_N2LO_N4LO_return_zero:
  "LOMatrixElement_Relative bra ket b regularize regulator T0 Abody = Fin 0
   \<and> LOMatrixElement_RelativeCM bra_cm ket_cm b regularize regulator T0 Abody = Fin 0
   \<and> N2LOMatrixElement_Relative bra ket b regularize regulator T0 Abody = Fin 0
   \<and> N2LOMatrixElement_RelativeCM bra_cm ket_cm b regularize regulator T0 Abody = Fin 0
   \<and> N4LOMatrixElement_Relative bra ket b regularize regulator T0 Abody = Fin 0
   \<and> N4LOMatrixElement_RelativeCM bra_cm ket_cm b regularize regulator T0 Abody = Fin 0"
  by (simp add: LOMatrixElement_Relative_def LOMatrixElement_RelativeCM_def
      N2LOMatrixElement_Relative_def N2LOMatrixElement_RelativeCM_def
      N4LOMatrixElement_Relative_def N4LOMatrixElement_RelativeCM_def zero_double_def)

text \<open>
  C9. The N3LO evaluator on relative and centre-of-mass states returns exactly 0.0 for
  every input (states, oscillator parameter, regularization flag, regulator, \<open>T0\<close>,
  body count): both the term evaluator \<^verbatim>\<open>N3LO2BodyIsoscalar\<close> and the method
  \<^verbatim>\<open>N3LOMatrixElement\<close> that dispatches to it.
\<close>

theorem N3LO_RelativeCM_returns_zero:
  "N3LO2BodyIsoscalar_RelativeCM bra ket b regularize regulator T0 = Fin 0
   \<and> N3LOMatrixElement_RelativeCM bra ket b regularize regulator T0 Abody = Fin 0"
  by (simp add: N3LO2BodyIsoscalar_RelativeCM_def N3LOMatrixElement_RelativeCM_def
      zero_double_def)

subsection \<open>Selection rules at NLO\<close>

text \<open>
  C8. The NLO two-body evaluator \<^verbatim>\<open>NLO2Body\<close> returns exactly 0.0 for every input with
  \<open>T0 \<noteq> 1\<close>, on relative states and on relative and centre-of-mass states.
\<close>

theorem NLO2Body_zero_unless_T0_is_1:
  assumes "T0 \<noteq> 1"
  shows "NLO2Body_Relative e bra ket b regularize regulator T0 = Fin 0
         \<and> NLO2Body_RelativeCM e bra_cm ket_cm b regularize regulator T0 = Some (Fin 0)"
  using assms by (simp add: NLO2Body_Relative_def NLO2Body_RelativeCM_def zero_double_def)

theorem NLO2Body_zero_unless_T0_is_1_witness:
  "(0 :: size_t) \<noteq> 1
   \<and> NLO2Body_Relative unit_externals deuteron deuteron unit_b True (Fin 1) 0 = Fin 0
   \<and> NLO2Body_RelativeCM unit_externals deuteron_CM deuteron_CM unit_b True (Fin 1) 0
       = Some (Fin 0)"
proof -
  have h: "(0 :: size_t) \<noteq> 1" by simp
  from NLO2Body_zero_unless_T0_is_1 [OF h] show ?thesis using h by blast
qed

text \<open>
  C7. The NLO one-body evaluator \<^verbatim>\<open>NLO1Body\<close> on relative states returns exactly 0.0 for
  every input in which bra and ket differ in the radial quantum number \<open>n\<close> or in the
  orbital quantum number \<open>L\<close>, and for every input with \<open>T0\<close> other than 0 and 1.
\<close>

theorem NLO1Body_Relative_zero:
  assumes "st_n bra \<noteq> st_n ket \<or> st_L bra \<noteq> st_L ket \<or> T0 \<notin> {0, 1}"
  shows "NLO1Body_Relative e bra ket T0 = Fin 0"
  using assms by (auto simp add: NLO1Body_Relative_def Let_def zero_double_def)

theorem NLO1Body_Relative_zero_witness:
  "st_L deuteron_D \<noteq> st_L deuteron
   \<and> NLO1Body_Relative unit_externals deuteron_D deuteron 0 = Fin 0
   \<and> (2 :: size_t) \<notin> {0, 1}
   \<and> NLO1Body_Relative unit_externals deuteron deuteron 2 = Fin 0"
proof -
  have h1: "st_L deuteron_D \<noteq> st_L deuteron"
    by (simp add: deuteron_D_def deuteron_def)
  have h2: "(2 :: size_t) \<notin> {0, 1}" by simp
  have "NLO1Body_Relative unit_externals deuteron_D deuteron 0 = Fin 0"
    using h1 by (intro NLO1Body_Relative_zero) blast
  moreover have "NLO1Body_Relative unit_externals deuteron deuteron 2 = Fin 0"
    using h2 by (intro NLO1Body_Relative_zero) blast
  ultimately show ?thesis using h1 h2 by blast
qed

subsection \<open>N3LO on relative states\<close>

text \<open>
  C6. \<^verbatim>\<open>N3LO2BodyIsoscalar\<close> on relative states ignores its argument \<open>T0\<close>: for every
  bra, ket, oscillator parameter, regularization flag and regulator, the calls with any
  two values of \<open>T0\<close> (so with 0, 1 and 2) return the same value.
\<close>

theorem N3LO2BodyIsoscalar_Relative_ignores_T0:
  "N3LO2BodyIsoscalar_Relative e bra ket b regularize regulator T0
     = N3LO2BodyIsoscalar_Relative e bra ket b regularize regulator T0'"
  by (simp add: N3LO2BodyIsoscalar_Relative_def)

theorem N3LO2BodyIsoscalar_Relative_ignores_T0_witness:
  "N3LO2BodyIsoscalar_Relative unit_externals deuteron deuteron unit_b False (Fin 1) 1
     = N3LO2BodyIsoscalar_Relative unit_externals deuteron deuteron unit_b False (Fin 1) 0
   \<and> N3LO2BodyIsoscalar_Relative unit_externals deuteron deuteron unit_b False (Fin 1) 2
       = Fin (((sqrt 10 - 1) / sqrt 3 + 2) * 2)
   \<and> N3LO2BodyIsoscalar_Relative unit_externals deuteron deuteron unit_b False (Fin 1) 2
       \<noteq> Fin 0"
proof -
  have "N3LO2BodyIsoscalar_Relative unit_externals deuteron deuteron unit_b False (Fin 1) 2
          = N3LO2BodyIsoscalar_Relative unit_externals deuteron deuteron unit_b False (Fin 1) 0"
    by (rule N3LO2BodyIsoscalar_Relative_ignores_T0)
  moreover
  have "N3LO2BodyIsoscalar_Relative unit_externals deuteron deuteron unit_b False (Fin 1) 1
          = N3LO2BodyIsoscalar_Relative unit_externals deuteron deuteron unit_b False (Fin 1) 0"
    by (rule N3LO2BodyIsoscalar_Relative_ignores_T0)
  ultimately show ?thesis
    using unit_N3LO_value_positive by (simp add: unit_N3LO2BodyIsoscalar)
qed

text \<open>
  C4. \<^verbatim>\<open>NLO2Body\<close> and \<^verbatim>\<open>N3LO2BodyIsoscalar\<close> on relative states build the parameters
  of the radial integrals from the same two scaled values in swapped positions:
  \<^verbatim>\<open>NLO2Body\<close> puts \<^verbatim>\<open>regulator / brel\<close> in the sixth place and \<^verbatim>\<open>pion_mass_fm * brel\<close>
  in the seventh, \<^verbatim>\<open>N3LO2BodyIsoscalar\<close> the reverse, so the two bundles differ whenever
  the two values differ. Each evaluator calls the quadrature routines on its own bundle:
  the value \<^verbatim>\<open>NLO2Body\<close> returns for \<open>T0 = 1\<close> is made of \<^verbatim>\<open>IntegralZPiYPiR\<close> and
  \<^verbatim>\<open>IntegralTPiYPiR\<close> at the first bundle, and the value \<^verbatim>\<open>N3LO2BodyIsoscalar\<close> returns
  is made of \<^verbatim>\<open>IntegralYPiR\<close>, \<^verbatim>\<open>IntegralWPiRYPiR\<close> and \<^verbatim>\<open>IntegralRegularizedDelta\<close> at
  the second.
\<close>

theorem N3LO2BodyIsoscalar_swaps_NLO2Body_parameters:
  "NLO2Body_prel e bra ket b regularize regulator
     = \<lparr>bra_n = st_n bra, bra_L = st_L bra, ket_n = st_n ket, ket_L = st_L ket,
        regularize_flag = regularize,
        scaled_regulator = regulator / relative b,
        scaled_pion_mass = pion_mass_fm (constants_of e) * relative b\<rparr>
   \<and> N3LO2BodyIsoscalar_prel e bra ket b regularize regulator
       = \<lparr>bra_n = st_n bra, bra_L = st_L bra, ket_n = st_n ket, ket_L = st_L ket,
          regularize_flag = regularize,
          scaled_regulator = pion_mass_fm (constants_of e) * relative b,
          scaled_pion_mass = regulator / relative b\<rparr>
   \<and> (regulator / relative b \<noteq> pion_mass_fm (constants_of e) * relative b
        \<longrightarrow> N3LO2BodyIsoscalar_prel e bra ket b regularize regulator
             \<noteq> NLO2Body_prel e bra ket b regularize regulator)
   \<and> N3LO2BodyIsoscalar_prel e bra ket b regularize regulator
       = (NLO2Body_prel e bra ket b regularize regulator)
           \<lparr>scaled_regulator :=
              scaled_pion_mass (NLO2Body_prel e bra ket b regularize regulator),
            scaled_pion_mass :=
              scaled_regulator (NLO2Body_prel e bra ket b regularize regulator)\<rparr>
   \<and> NLO2Body_Relative e bra ket b regularize regulator 1
       = (let prel = NLO2Body_prel e bra ket b regularize regulator;
              norm_product_rel =
                CoordinateSpaceNorm (ho_of e) (st_n ket) (st_L ket) 1
                  * CoordinateSpaceNorm (ho_of e) (st_n bra) (st_L bra) 1;
              zpi_integral = norm_product_rel * IntegralZPiYPiR (quadrature_of e) prel;
              tpi_integral = norm_product_rel * IntegralTPiYPiR (quadrature_of e) prel;
              lecp =
                gA (constants_of e) * d18_fm (constants_of e)
                    * cube (pion_mass_fm (constants_of e))
                  / (Fin 12 * pi_constant (constants_of e)
                       * nuclear_magneton_fm (constants_of e)
                       * square (pion_decay_constant_fm (constants_of e)));
              r = (sqrt_double (Fin 10)
                     * RelativePauliProductRME (am_of e) (st_L bra) (st_L ket) (st_S bra)
                         (st_S ket) (st_J bra) (st_J ket) 2 1 1
                     * zpi_integral
                   + RelativePauliProductRME (am_of e) (st_L bra) (st_L ket) (st_S bra)
                         (st_S ket) (st_J bra) (st_J ket) 0 1 1
                     * tpi_integral)
                  * (lecp * PauliProductRME (am_of e) (st_T bra) (st_T ket) 1)
          in if isnan r then 0 else r)
   \<and> N3LO2BodyIsoscalar_Relative e bra ket b regularize regulator T0
       = (let prel = N3LO2BodyIsoscalar_prel e bra ket b regularize regulator;
              S_rme =
                RelativeSpinSymmetricRME (am_of e) (st_L bra) (st_L ket) (st_S bra)
                  (st_S ket) (st_J bra) (st_J ket) 0 1;
              norm_product =
                CoordinateSpaceNorm (ho_of e) (st_n ket) (st_L ket) 1
                  * CoordinateSpaceNorm (ho_of e) (st_n bra) (st_L bra) 1;
              ypi_integral = norm_product * IntegralYPiR (quadrature_of e) prel;
              wpi_integral = norm_product * IntegralWPiRYPiR (quadrature_of e) prel;
              d9_prefactor =
                gA (constants_of e) * d9_fm (constants_of e)
                    * cube (pion_mass_fm (constants_of e))
                  / (sqrt_double (Fin 3) * pi_constant (constants_of e)
                       * square (pion_decay_constant_fm (constants_of e)));
              d9_term =
                d9_prefactor * PauliProductRME (am_of e) (st_T bra) (st_T ket) 0
                  * (wpi_integral
                       * (sqrt_double (Fin 10)
                            * RelativeSpinSymmetricRME (am_of e) (st_L bra) (st_L ket)
                                (st_S bra) (st_S ket) (st_J bra) (st_J ket) 2 1)
                     - ypi_integral * S_rme);
              L2_term =
                (if st_L ket = 0 \<and> st_T bra = st_T ket
                 then 0 + Fin 2 * L2_fm (constants_of e) * S_rme
                            * (IntegralRegularizedDelta (quadrature_of e) prel
                                 / cube (relative b))
                 else 0);
              r = (d9_term + L2_term) * (Fin 2 * nucleon_mass_fm (constants_of e))
          in if isnan r then 0 else r)"
proof -
  have bundles:
    "NLO2Body_prel e bra ket b regularize regulator
       = \<lparr>bra_n = st_n bra, bra_L = st_L bra, ket_n = st_n ket, ket_L = st_L ket,
          regularize_flag = regularize,
          scaled_regulator = regulator / relative b,
          scaled_pion_mass = pion_mass_fm (constants_of e) * relative b\<rparr>"
    "N3LO2BodyIsoscalar_prel e bra ket b regularize regulator
       = \<lparr>bra_n = st_n bra, bra_L = st_L bra, ket_n = st_n ket, ket_L = st_L ket,
          regularize_flag = regularize,
          scaled_regulator = pion_mass_fm (constants_of e) * relative b,
          scaled_pion_mass = regulator / relative b\<rparr>"
    by (simp_all add: NLO2Body_prel_def N3LO2BodyIsoscalar_prel_def Let_def)
  have differ: "regulator / relative b \<noteq> pion_mass_fm (constants_of e) * relative b
        \<longrightarrow> N3LO2BodyIsoscalar_prel e bra ket b regularize regulator
             \<noteq> NLO2Body_prel e bra ket b regularize regulator"
    by (auto simp add: bundles)
  have swapped: "N3LO2BodyIsoscalar_prel e bra ket b regularize regulator
       = (NLO2Body_prel e bra ket b regularize regulator)
           \<lparr>scaled_regulator :=
              scaled_pion_mass (NLO2Body_prel e bra ket b regularize regulator),
            scaled_pion_mass :=
              scaled_regulator (NLO2Body_prel e bra ket b regularize regulator)\<rparr>"
    by (simp add: bundles)
  have nlo: "NLO2Body_Relative e bra ket b regularize regulator 1
       = (let prel = NLO2Body_prel e bra ket b regularize regulator;
              norm_product_rel =
                CoordinateSpaceNorm (ho_of e) (st_n ket) (st_L ket) 1
                  * CoordinateSpaceNorm (ho_of e) (st_n bra) (st_L bra) 1;
              zpi_integral = norm_product_rel * IntegralZPiYPiR (quadrature_of e) prel;
              tpi_integral = norm_product_rel * IntegralTPiYPiR (quadrature_of e) prel;
              lecp =
                gA (constants_of e) * d18_fm (constants_of e)
                    * cube (pion_mass_fm (constants_of e))
                  / (Fin 12 * pi_constant (constants_of e)
                       * nuclear_magneton_fm (constants_of e)
                       * square (pion_decay_constant_fm (constants_of e)));
              r = (sqrt_double (Fin 10)
                     * RelativePauliProductRME (am_of e) (st_L bra) (st_L ket) (st_S bra)
                         (st_S ket) (st_J bra) (st_J ket) 2 1 1
                     * zpi_integral
                   + RelativePauliProductRME (am_of e) (st_L bra) (st_L ket) (st_S bra)
                         (st_S ket) (st_J bra) (st_J ket) 0 1 1
                     * tpi_integral)
                  * (lecp * PauliProductRME (am_of e) (st_T bra) (st_T ket) 1)
          in if isnan r then 0 else r)"
    by (simp add: NLO2Body_Relative_def Let_def)
  have n3lo: "N3LO2BodyIsoscalar_Relative e bra ket b regularize regulator T0
       = (let prel = N3LO2BodyIsoscalar_prel e bra ket b regularize regulator;
              S_rme =
                RelativeSpinSymmetricRME (am_of e) (st_L bra) (st_L ket) (st_S bra)
                  (st_S ket) (st_J bra) (st_J ket) 0 1;
              norm_product =
                CoordinateSpaceNorm (ho_of e) (st_n ket) (st_L ket) 1
                  * CoordinateSpaceNorm (ho_of e) (st_n bra) (st_L bra) 1;
              ypi_integral = norm_product * IntegralYPiR (quadrature_of e) prel;
              wpi_integral = norm_product * IntegralWPiRYPiR (quadrature_of e) prel;
              d9_prefactor =
                gA (constants_of e) * d9_fm (constants_of e)
                    * cube (pion_mass_fm (constants_of e))
                  / (sqrt_double (Fin 3) * pi_constant (constants_of e)
                       * square (pion_decay_constant_fm (constants_of e)));
              d9_term =
                d9_prefactor * PauliProductRME (am_of e) (st_T bra) (st_T ket) 0
                  * (wpi_integral
                       * (sqrt_double (Fin 10)
                            * RelativeSpinSymmetricRME (am_of e) (st_L bra) (st_L ket)
                                (st_S bra) (st_S ket) (st_J bra) (st_J ket) 2 1)
                     - ypi_integral * S_rme);
              L2_term =
                (if st_L ket = 0 \<and> st_T bra = st_T ket
                 then 0 + Fin 2 * L2_fm (constants_of e) * S_rme
                            * (IntegralRegularizedDelta (quadrature_of e) prel
                                 / cube (relative b))
                 else 0);
              r = (d9_term + L2_term) * (Fin 2 * nucleon_mass_fm (constants_of e))
          in if isnan r then 0 else r)"
    by (simp add: N3LO2BodyIsoscalar_Relative_def N3LO2BodyIsoscalar_d9_term_def
        N3LO2BodyIsoscalar_L2_term_def N3LO2BodyIsoscalar_S_rme_def Let_def)
  show ?thesis using bundles differ swapped nlo n3lo by (intro conjI)
qed

theorem N3LO2BodyIsoscalar_swaps_NLO2Body_parameters_witness:
  "Fin 2 / relative unit_b \<noteq> pion_mass_fm (constants_of probe_externals) * relative unit_b
   \<and> N3LO2BodyIsoscalar_prel probe_externals deuteron deuteron unit_b True (Fin 2)
       \<noteq> NLO2Body_prel probe_externals deuteron deuteron unit_b True (Fin 2)
   \<and> IntegralZPiYPiR (quadrature_of probe_externals)
         (NLO2Body_prel probe_externals deuteron deuteron unit_b True (Fin 2)) = Fin 2
   \<and> IntegralYPiR (quadrature_of probe_externals)
         (N3LO2BodyIsoscalar_prel probe_externals deuteron deuteron unit_b True (Fin 2)) = Fin 1
   \<and> NLO2Body_Relative probe_externals deuteron deuteron unit_b True (Fin 2) 1
       = Fin ((sqrt 10 * 2 + 2) / 12)
   \<and> N3LO2BodyIsoscalar_Relative probe_externals deuteron deuteron unit_b True (Fin 2) 0
       = Fin (((sqrt 10 - 1) / sqrt 3 + 2) * 2)"
proof -
  note t = N3LO2BodyIsoscalar_swaps_NLO2Body_parameters
    [of probe_externals deuteron deuteron unit_b True "Fin 2" 0]
  have v: "Fin 2 / relative unit_b = Fin 2"
    "pion_mass_fm (constants_of probe_externals) * relative unit_b = Fin 1"
    by (simp_all add: unit_b_def probe_externals_def unit_externals_def unit_constants_def)
  have q: "IntegralZPiYPiR (quadrature_of probe_externals) = scaled_regulator"
    "IntegralTPiYPiR (quadrature_of probe_externals) = scaled_regulator"
    "IntegralYPiR (quadrature_of probe_externals) = scaled_regulator"
    "IntegralWPiRYPiR (quadrature_of probe_externals) = scaled_regulator"
    "IntegralRegularizedDelta (quadrature_of probe_externals) = scaled_regulator"
    by (simp_all add: probe_externals_def)
  have pN: "scaled_regulator (NLO2Body_prel probe_externals deuteron deuteron unit_b True (Fin 2))
              = Fin 2"
    using t v by simp
  have p3: "scaled_regulator
              (N3LO2BodyIsoscalar_prel probe_externals deuteron deuteron unit_b True (Fin 2))
              = Fin 1"
    using t v by simp
  have differ: "N3LO2BodyIsoscalar_prel probe_externals deuteron deuteron unit_b True (Fin 2)
       \<noteq> NLO2Body_prel probe_externals deuteron deuteron unit_b True (Fin 2)"
    using pN p3 by auto
  have nlo: "NLO2Body_Relative probe_externals deuteron deuteron unit_b True (Fin 2) 1
       = Fin ((sqrt 10 * 2 + 2) / 12)"
    unfolding t [THEN conjunct2, THEN conjunct2, THEN conjunct2, THEN conjunct2, THEN conjunct1]
      Let_def q pN
    by (simp add: probe_externals_def unit_externals_def unit_constants_def unit_am_def
        unit_ho_def cube_def square_def)
  have n3lo: "N3LO2BodyIsoscalar_Relative probe_externals deuteron deuteron unit_b True (Fin 2) 0
       = Fin (((sqrt 10 - 1) / sqrt 3 + 2) * 2)"
    unfolding t [THEN conjunct2, THEN conjunct2, THEN conjunct2, THEN conjunct2, THEN conjunct2]
      Let_def q p3
    by (simp add: probe_externals_def unit_externals_def unit_constants_def unit_am_def
        unit_ho_def unit_b_def cube_def square_def minus_double_def zero_double_def
        deuteron_def)
  show ?thesis using v differ pN p3 nlo n3lo by (simp add: q)
qed

text \<open>
  C1. The claim is that the L2 contact term of \<^verbatim>\<open>N3LO2BodyIsoscalar\<close> is exactly 0
  whenever the orbital angular momentum of the bra or of the ket is not 0, and whenever
  the isospins differ. The condition of the code is \<^verbatim>\<open>L == 0 && L == 0 && Tp == T\<close>: it
  reads the ket's \<open>L\<close> twice and the bra's never. So for every bra, whatever its orbital
  angular momentum, a ket with \<open>L = 0\<close> and the same isospin takes the branch, and the
  L2 term is the product \<^verbatim>\<open>2 * L2_fm * S_rme * delta_integral\<close> added to 0.
\<close>

theorem N3LO2BodyIsoscalar_L2_term_any_bra_L:
  assumes "st_L ket = 0" and "st_T bra = st_T ket"
  shows "N3LO2BodyIsoscalar_L2_term e bra ket b regularize regulator
           = 0 + Fin 2 * L2_fm (constants_of e) * N3LO2BodyIsoscalar_S_rme e bra ket
                  * (IntegralRegularizedDelta (quadrature_of e)
                       (N3LO2BodyIsoscalar_prel e bra ket b regularize regulator)
                     / cube (relative b))"
  using assms by (simp add: N3LO2BodyIsoscalar_L2_term_def Let_def)

theorem N3LO2BodyIsoscalar_L2_term_any_bra_L_witness:
  "st_L deuteron = 0 \<and> st_T deuteron_D = st_T deuteron \<and> st_L deuteron_D \<noteq> 0
   \<and> N3LO2BodyIsoscalar_L2_term unit_externals deuteron_D deuteron unit_b False (Fin 1)
       = Fin 2"
proof -
  have h1: "st_L deuteron = 0" by (simp add: deuteron_def)
  have h2: "st_T deuteron_D = st_T deuteron" by (simp add: deuteron_def deuteron_D_def)
  have h3: "st_L deuteron_D \<noteq> 0" by (simp add: deuteron_D_def)
  have "N3LO2BodyIsoscalar_L2_term unit_externals deuteron_D deuteron unit_b False (Fin 1)
          = Fin 2"
    unfolding N3LO2BodyIsoscalar_L2_term_any_bra_L [OF h1 h2]
    by (simp add: N3LO2BodyIsoscalar_S_rme_def unit_externals_def unit_constants_def
        unit_am_def unit_quadrature_def unit_b_def cube_def zero_double_def)
  then show ?thesis using h1 h2 h3 by blast
qed

text \<open>
  The part of that claim which the condition does enforce: the L2 term is 0 when the
  ket's orbital angular momentum is not 0, and when the isospins differ.
\<close>

lemma N3LO2BodyIsoscalar_L2_term_zero:
  assumes "st_L ket \<noteq> 0 \<or> st_T bra \<noteq> st_T ket"
  shows "N3LO2BodyIsoscalar_L2_term e bra ket b regularize regulator = Fin 0"
  using assms by (auto simp add: N3LO2BodyIsoscalar_L2_term_def Let_def zero_double_def)

text \<open>
  C2. The claim is that \<^verbatim>\<open>N3LOMatrixElement\<close> returns 0.0 for the body count 1 in both
  representations. The overload on relative states never reads \<^verbatim>\<open>Abody\<close>: for every
  body count, so for 1, it returns what \<^verbatim>\<open>N3LO2BodyIsoscalar\<close> returns. (The overload on
  relative and centre-of-mass states does return 0.0 for every body count.)
\<close>

theorem N3LOMatrixElement_Relative_ignores_Abody:
  "N3LOMatrixElement_Relative e bra ket b regularize regulator T0 Abody
     = N3LO2BodyIsoscalar_Relative e bra ket b regularize regulator T0"
  by (simp add: N3LOMatrixElement_Relative_def)

theorem N3LOMatrixElement_Relative_ignores_Abody_witness:
  "N3LOMatrixElement_Relative unit_externals deuteron deuteron unit_b False (Fin 1) 0 1
     = Fin (((sqrt 10 - 1) / sqrt 3 + 2) * 2)
   \<and> N3LOMatrixElement_Relative unit_externals deuteron deuteron unit_b False (Fin 1) 0 1
       \<noteq> Fin 0"
  using unit_N3LO_value_positive
  unfolding N3LOMatrixElement_Relative_ignores_Abody unit_N3LO2BodyIsoscalar by simp

subsection \<open>The test for NaN\<close>

text \<open>
  C3. The claim is that every term evaluator replaces a NaN result by 0.0 before it
  returns, \<^verbatim>\<open>NLO1Body\<close> on relative states included. That evaluator has no test for NaN:
  it returns its sum as it is. With equal \<open>n\<close> and \<open>L\<close> and \<open>T0 = 0\<close>, when the spin
  element \<^verbatim>\<open>am::RelativeSpinSymmetricRME\<close> is NaN, the value returned is NaN.
\<close>

theorem NLO1Body_Relative_returns_NaN:
  assumes "st_n bra = st_n ket" and "st_L bra = st_L ket" and "T0 = 0"
    and "RelativeSpinSymmetricRME (am_of e) (st_L bra) (st_L ket) (st_S bra) (st_S ket)
           (st_J bra) (st_J ket) 0 1 = NaN"
  shows "NLO1Body_Relative e bra ket T0 = NaN"
  using assms by (simp add: NLO1Body_Relative_def Let_def)

theorem NLO1Body_Relative_returns_NaN_witness:
  "RelativeSpinSymmetricRME (am_of nan_externals) (st_L deuteron) (st_L deuteron)
     (st_S deuteron) (st_S deuteron) (st_J deuteron) (st_J deuteron) 0 1 = NaN
   \<and> NLO1Body_Relative nan_externals deuteron deuteron 0 = NaN
   \<and> isnan (NLO1Body_Relative nan_externals deuteron deuteron 0)"
proof -
  have h: "RelativeSpinSymmetricRME (am_of nan_externals) (st_L deuteron) (st_L deuteron)
     (st_S deuteron) (st_S deuteron) (st_J deuteron) (st_J deuteron) 0 1 = NaN"
    by (simp add: nan_externals_def)
  have "NLO1Body_Relative nan_externals deuteron deuteron 0 = NaN"
    by (rule NLO1Body_Relative_returns_NaN [OF refl refl refl h])
  then show ?thesis using h by simp
qed

text \<open>
  The other term evaluators do test their result: none of them returns NaN, whatever
  the libraries return (for \<^verbatim>\<open>NLO2Body\<close> on relative and centre-of-mass states: whenever
  the conversion of its integer local is defined).
\<close>

lemma NLO2Body_Relative_not_NaN:
  "\<not> isnan (NLO2Body_Relative e bra ket b regularize regulator T0)"
  by (simp add: NLO2Body_Relative_def Let_def zero_double_def)

lemma NLO1Body_RelativeCM_not_NaN: "\<not> isnan (NLO1Body_RelativeCM e bra ket T0)"
  unfolding NLO1Body_RelativeCM_def Let_def by (rule isnan_sanitized)

lemma NLO2Body_RelativeCM_not_NaN:
  assumes "NLO2Body_RelativeCM e bra ket b regularize regulator T0 = Some r"
  shows "\<not> isnan r"
  using assms
  by (auto simp add: NLO2Body_RelativeCM_def NLO2Body_RelativeCM_result_def Let_def
      zero_double_def split: if_splits option.splits)

lemma N3LO2BodyIsoscalar_Relative_not_NaN:
  "\<not> isnan (N3LO2BodyIsoscalar_Relative e bra ket b regularize regulator T0)"
  unfolding N3LO2BodyIsoscalar_Relative_def Let_def by (rule isnan_sanitized)

lemma N3LO2BodyIsoscalar_RelativeCM_not_NaN:
  "\<not> isnan (N3LO2BodyIsoscalar_RelativeCM bra ket b regularize regulator T0)"
  by (simp add: N3LO2BodyIsoscalar_RelativeCM_def zero_double_def)

subsection \<open>The integer local of \<^verbatim>\<open>NLO2Body\<close>\<close>

text \<open>
  With the relative contribution taken as 0, the result of \<^verbatim>\<open>NLO2Body\<close> is the
  centre-of-mass contribution alone, times the prefactor and the isospin element.
\<close>

lemma NLO2Body_RelativeCM_result_0:
  "NLO2Body_RelativeCM_result e bra ket b regularize regulator 0
     = (let r = NLO2Body_RelativeCM_lec_prefactor e
                  * PauliProductRME (am_of e) (cm_T bra) (cm_T ket) 1
                  * NLO2Body_RelativeCM_relative_cm e bra ket b regularize regulator
        in if isnan r then 0 else r)"
  by (simp add: NLO2Body_RelativeCM_result_def Let_def int_to_double_def plus_zero_right)

text \<open>
  When the centre-of-mass quantum numbers of bra and ket differ, the branch is not taken
  and the local keeps its initial value 0.
\<close>

lemma NLO2Body_RelativeCM_off_diagonal:
  assumes "cm_Nc bra \<noteq> cm_Nc ket \<or> cm_lc bra \<noteq> cm_lc ket"
  shows "NLO2Body_RelativeCM e bra ket b regularize regulator 1
           = Some (NLO2Body_RelativeCM_result e bra ket b regularize regulator 0)"
  using assms by (auto simp add: NLO2Body_RelativeCM_def)

text \<open>
  C5. In \<^verbatim>\<open>NLO2Body\<close> on relative and centre-of-mass states, the relative contribution
  \<^verbatim>\<open>zpi_integral * A6S1_rme + tpi_integral * S1_rme\<close>, computed when the centre-of-mass
  quantum numbers of bra and ket agree, is stored into a local of type \<^verbatim>\<open>int\<close>. For
  \<open>T0 = 1\<close> and a finite contribution \<open>x\<close>: the value returned is the product of the
  prefactor, the isospin element and the sum of the centre-of-mass contribution and the
  integer \<open>truncate_real x\<close> (when that is an \<^verbatim>\<open>int\<close>), replaced by 0.0 when it is NaN;
  that integer is \<open>x\<close> truncated toward zero; and when the magnitude of \<open>x\<close> is less than
  1, the value returned is made of the centre-of-mass contribution alone: the relative
  contribution is dropped.
\<close>

theorem NLO2Body_RelativeCM_truncates_relative:
  assumes "NLO2Body_RelativeCM_relative e bra ket b regularize regulator = Fin x"
    and "cm_Nc bra = cm_Nc ket" and "cm_lc bra = cm_lc ket"
  shows "(INT_MIN \<le> truncate_real x \<and> truncate_real x \<le> INT_MAX \<longrightarrow>
            NLO2Body_RelativeCM e bra ket b regularize regulator 1
              = Some (let r = NLO2Body_RelativeCM_lec_prefactor e
                                * PauliProductRME (am_of e) (cm_T bra) (cm_T ket) 1
                                * (NLO2Body_RelativeCM_relative_cm e bra ket b regularize regulator
                                     + Fin (real_of_int (truncate_real x)))
                      in if isnan r then 0 else r))
         \<and> \<bar>real_of_int (truncate_real x)\<bar> \<le> \<bar>x\<bar>
         \<and> \<bar>x - real_of_int (truncate_real x)\<bar> < 1
         \<and> (\<bar>x\<bar> < 1 \<longrightarrow>
              NLO2Body_RelativeCM e bra ket b regularize regulator 1
                = Some (let r = NLO2Body_RelativeCM_lec_prefactor e
                                  * PauliProductRME (am_of e) (cm_T bra) (cm_T ket) 1
                                  * NLO2Body_RelativeCM_relative_cm e bra ket b regularize regulator
                        in if isnan r then 0 else r))"
proof -
  have stored: "INT_MIN \<le> truncate_real x \<and> truncate_real x \<le> INT_MAX \<longrightarrow>
            NLO2Body_RelativeCM e bra ket b regularize regulator 1
              = Some (let r = NLO2Body_RelativeCM_lec_prefactor e
                                * PauliProductRME (am_of e) (cm_T bra) (cm_T ket) 1
                                * (NLO2Body_RelativeCM_relative_cm e bra ket b regularize regulator
                                     + Fin (real_of_int (truncate_real x)))
                      in if isnan r then 0 else r)"
    using assms
    by (simp add: NLO2Body_RelativeCM_def NLO2Body_RelativeCM_result_def int_to_double_def Let_def)
  have dropped: "\<bar>x\<bar> < 1 \<longrightarrow>
              NLO2Body_RelativeCM e bra ket b regularize regulator 1
                = Some (let r = NLO2Body_RelativeCM_lec_prefactor e
                                  * PauliProductRME (am_of e) (cm_T bra) (cm_T ket) 1
                                  * NLO2Body_RelativeCM_relative_cm e bra ket b regularize regulator
                        in if isnan r then 0 else r)"
    using stored zero_is_int by (auto simp add: truncate_real_small plus_zero_right)
  show ?thesis using stored dropped truncate_real_toward_zero [of x] by blast
qed

theorem NLO2Body_RelativeCM_truncates_relative_witness:
  "NLO2Body_RelativeCM_relative half_externals deuteron_CM deuteron_CM unit_b False (Fin 1)
     = Fin (1 / 2)
   \<and> \<bar>1 / 2 :: real\<bar> < 1
   \<and> NLO2Body_RelativeCM half_externals deuteron_CM deuteron_CM unit_b False (Fin 1) 1
       = Some (Fin (1 / 12
                 * (sqrt (3 / 5) + sqrt (9 / 5) + sqrt (14 / 5) + sqrt (28 / 5) - sqrt 3)))
   \<and> NLO2Body_RelativeCM_relative unit_externals deuteron_CM deuteron_CM unit_b False (Fin 1)
       = Fin (sqrt 10 + 1)
   \<and> truncate_real (sqrt 10 + 1) = 4
   \<and> NLO2Body_RelativeCM unit_externals deuteron_CM deuteron_CM unit_b False (Fin 1) 1
       = Some (Fin (1 / 12
                 * (sqrt (3 / 5) + sqrt (9 / 5) + sqrt (14 / 5) + sqrt (28 / 5) - sqrt 3 + 4)))"
proof -
  have small: "\<bar>1 / 2 :: real\<bar> < 1" by simp
  have four: "INT_MIN \<le> truncate_real (sqrt 10 + 1) \<and> truncate_real (sqrt 10 + 1) \<le> INT_MAX"
    by (simp add: truncate_sqrt_10_plus_1 INT_MIN_def INT_MAX_def)
  have "NLO2Body_RelativeCM half_externals deuteron_CM deuteron_CM unit_b False (Fin 1) 1
       = Some (let r = NLO2Body_RelativeCM_lec_prefactor half_externals
                         * PauliProductRME (am_of half_externals) (cm_T deuteron_CM) (cm_T deuteron_CM) 1
                         * NLO2Body_RelativeCM_relative_cm half_externals deuteron_CM deuteron_CM unit_b False (Fin 1)
               in if isnan r then 0 else r)"
    using NLO2Body_RelativeCM_truncates_relative [OF half_relative refl refl] small by blast
  then have a: "NLO2Body_RelativeCM half_externals deuteron_CM deuteron_CM unit_b False (Fin 1) 1
       = Some (Fin (1 / 12
                 * (sqrt (3 / 5) + sqrt (9 / 5) + sqrt (14 / 5) + sqrt (28 / 5) - sqrt 3)))"
    by (simp add: unit_lec_prefactor unit_T1_rme half_relative_cm)
  have "NLO2Body_RelativeCM unit_externals deuteron_CM deuteron_CM unit_b False (Fin 1) 1
       = Some (let r = NLO2Body_RelativeCM_lec_prefactor unit_externals
                         * PauliProductRME (am_of unit_externals) (cm_T deuteron_CM) (cm_T deuteron_CM) 1
                         * (NLO2Body_RelativeCM_relative_cm unit_externals deuteron_CM deuteron_CM unit_b False (Fin 1)
                              + Fin (real_of_int (truncate_real (sqrt 10 + 1))))
               in if isnan r then 0 else r)"
    using NLO2Body_RelativeCM_truncates_relative [OF unit_relative refl refl] four by blast
  then have b: "NLO2Body_RelativeCM unit_externals deuteron_CM deuteron_CM unit_b False (Fin 1) 1
       = Some (Fin (1 / 12
                 * (sqrt (3 / 5) + sqrt (9 / 5) + sqrt (14 / 5) + sqrt (28 / 5) - sqrt 3 + 4)))"
    by (simp add: unit_lec_prefactor unit_T1_rme unit_relative_cm truncate_sqrt_10_plus_1)
  show ?thesis using a b small half_relative unit_relative truncate_sqrt_10_plus_1 by blast
qed

end
